theory Spec2Isabelle
  imports Complex_Main
begin

section \<open>Economic core of the Dino Fighter staking application (src/App.js)\<close>

text \<open>
  The development embeds the handlers of \<^verbatim>\<open>src/App.js\<close> that carry the economic rules:
  the staking section (multiplier, slot price, slot purchase), the reward section and the
  coin section (the two burn actions), the sale section (epoch clock, purchase caps) and
  the raffle section (ticket purchase, spin).

  Conventions of the embedding.
  \<^item> A JavaScript number is a \<open>real\<close>: arithmetic is exact, so the rounding of IEEE
    doubles is outside the model. Array lengths and ticket counts are \<open>nat\<close>, epoch
    numbers, identifiers and millisecond clocks are \<open>int\<close>.
  \<^item> A Firestore document is a record whose fields are optional (\<open>None\<close> is the
    JavaScript \<^verbatim>\<open>undefined\<close>); a document that does not exist is \<open>None\<close>.
    \<^verbatim>\<open>setDoc(..., {merge: true})\<close> and \<^verbatim>\<open>updateDoc\<close> overwrite the listed fields
    and keep the others; \<^verbatim>\<open>updateDoc\<close> on a document that does not exist is
    rejected. Apart from that the store is taken to answer every read and write.
  \<^item> A component's state variable that is filled by its \<^verbatim>\<open>onSnapshot\<close> listener
    mirrors the document; a handler that reads such a variable reads the document through
    the listener's own defaulting (\<^verbatim>\<open>data.x || 0\<close>).
  \<^item> A handler reports through \<^verbatim>\<open>setModalMessage\<close>; the model returns the kind of
    the message as a value (\<open>Inl\<close> an error, \<open>Inr\<close> the payload of a success) paired
    with the state after the handler, so that "unchanged" is a statement about that state.
\<close>

subsection \<open>Errors and JavaScript helpers\<close>

datatype error =
    InsufficientBalance
  | NothingToBurn
  | NoTicketsAvailable
  | AlreadySpinning
  | SaleNotLive
  | InvalidAmount
  | WalletCapExceeded
  | EpochCapExceeded
  | NotAuthenticated
  | PersistenceFailure

text \<open>\<^verbatim>\<open>x || 0\<close> on a numeric field: \<^verbatim>\<open>undefined\<close> and \<open>0\<close> both give \<open>0\<close>.\<close>

definition orZero :: "real option \<Rightarrow> real" where
  "orZero x = (case x of None \<Rightarrow> 0 | Some v \<Rightarrow> v)"

text \<open>\<^verbatim>\<open>!userId\<close>: the identifier is missing or is the empty string.\<close>

definition connected :: "string option \<Rightarrow> bool" where
  "connected userId = (case userId of None \<Rightarrow> False | Some u \<Rightarrow> u \<noteq> [])"

text \<open>\<^verbatim>\<open>Math.pow(b, e)\<close> at an integer exponent, the only use the source makes of it.\<close>

definition Math_pow :: "real \<Rightarrow> int \<Rightarrow> real" where
  "Math_pow b e = (if 0 \<le> e then b ^ nat e else 1 / b ^ nat (- e))"

subsection \<open>Staking section: data\<close>

record nft =
  id_nft :: int
  type_nft :: string
  earning :: real
  staked :: bool
  lastStakedTime :: int

record stakingDoc =
  nfts :: "nft list option"
  earned :: "real option"
  readyToBurnEDinosur :: "real option"
  totalBurntEDinosur :: "real option"

record burnStatsDoc =
  readyToBurnDinosur :: "real option"
  totalBurntDinosur :: "real option"

text \<open>
  The documents one session touches: the user's staking document and the global
  burn statistics document \<^verbatim>\<open>dinosur_burn_stats/global_stats\<close>.
\<close>

record db =
  staking :: "stakingDoc option"
  burnStats :: "burnStatsDoc option"

definition BASE_ADD_SLOT_EDINOSUR_COST :: real where
  "BASE_ADD_SLOT_EDINOSUR_COST = 200000"

definition ADD_SLOT_BURN_AMOUNT_PERCENTAGE :: real where
  "ADD_SLOT_BURN_AMOUNT_PERCENTAGE = 0.5"

subsection \<open>Multiplier (calculateMultiplier)\<close>

text \<open>\<^verbatim>\<open>new Set(nfts.filter(nft => nft.staked).map(nft => nft.type))\<close>\<close>

definition stakedTypes :: "nft list \<Rightarrow> string set" where
  "stakedTypes ns = set (map type_nft (filter staked ns))"

definition calculateMultiplier :: "nft list \<Rightarrow> real" where
  "calculateMultiplier ns =
     (let st = stakedTypes ns in
      if ''Legend'' \<in> st then 1.5
      else if ''King'' \<in> st then 1.3
      else if ''Unique'' \<in> st then 1.15
      else if ''Common'' \<in> st \<or> ''Rare'' \<in> st then 1.05
      else 1.0)"

subsection \<open>Slot price (calculateAddSlotCost)\<close>

definition calculateAddSlotCost :: "nat \<Rightarrow> real" where
  "calculateAddSlotCost currentSlotCount =
     (let baseCost = BASE_ADD_SLOT_EDINOSUR_COST in
      if currentSlotCount \<ge> 4
      then (let multiplier = Math_pow 1.5 (int currentSlotCount - 3) in baseCost * multiplier)
      else baseCost)"

subsection \<open>Slot purchase (handleAddSlot)\<close>

text \<open>What the success message of a slot purchase reports.\<close>

record slotReceipt =
  calculatedCost :: real
  burnAmount :: real
  daoAmount :: real

text \<open>\<^verbatim>\<open>Math.max(...ids)\<close> on a non-empty list of identifiers.\<close>

fun Math_max :: "int \<Rightarrow> int list \<Rightarrow> int" where
  "Math_max m [] = m"
| "Math_max m (x # xs) = Math_max (max m x) xs"

definition newId :: "nft list \<Rightarrow> int" where
  "newId currentNFTs =
     (case map id_nft currentNFTs of [] \<Rightarrow> 1 | i # is \<Rightarrow> Math_max i is + 1)"

definition newSlot :: "int \<Rightarrow> nft" where
  "newSlot i = \<lparr>id_nft = i, type_nft = ''New Slot'', earning = 0, staked = False,
                lastStakedTime = 0\<rparr>"

text \<open>
  \<^verbatim>\<open>docSnap.exists() ? docSnap.data() : { earned: 0, readyToBurnEDinosur: 0, nfts: [] }\<close>
\<close>

definition currentDataOf :: "stakingDoc option \<Rightarrow> stakingDoc" where
  "currentDataOf d =
     (case d of
        Some dt \<Rightarrow> dt
      | None \<Rightarrow> \<lparr>nfts = Some [], earned = Some 0, readyToBurnEDinosur = Some 0,
                  totalBurntEDinosur = None\<rparr>)"

definition nftsOr :: "nft list option \<Rightarrow> nft list" where
  "nftsOr x = (case x of None \<Rightarrow> [] | Some ns \<Rightarrow> ns)"

text \<open>
  \<^verbatim>\<open>updateFirestoreStaking\<close>: one merging write of the three fields; the field
  \<^verbatim>\<open>totalBurntEDinosur\<close> keeps what the document had.
\<close>

definition updateFirestoreStaking ::
  "nft list \<Rightarrow> real \<Rightarrow> real \<Rightarrow> stakingDoc option \<Rightarrow> stakingDoc option" where
  "updateFirestoreStaking updatedNFTs updatedEarned updatedReadyToBurnEDinosur d =
     Some \<lparr>nfts = Some updatedNFTs, earned = Some updatedEarned,
           readyToBurnEDinosur = Some updatedReadyToBurnEDinosur,
           totalBurntEDinosur = (case d of None \<Rightarrow> None | Some dt \<Rightarrow> totalBurntEDinosur dt)\<rparr>"

definition handleAddSlot :: "string option \<Rightarrow> db \<Rightarrow> (error + slotReceipt) \<times> db" where
  "handleAddSlot userId s =
     (if \<not> connected userId then (Inl NotAuthenticated, s)
      else
        let currentData = currentDataOf (staking s);
            currentEDinosurBalance = orZero (earned currentData);
            currentReadyToBurnEDinosur = orZero (readyToBurnEDinosur currentData);
            currentNFTs = nftsOr (nfts currentData);
            cost = calculateAddSlotCost (length currentNFTs)
        in if currentEDinosurBalance \<ge> cost then
             let remainingEDinosur = currentEDinosurBalance - cost;
                 burnAmt = cost * ADD_SLOT_BURN_AMOUNT_PERCENTAGE;
                 daoAmt = cost - burnAmt;
                 newReadyToBurnEDinosur = currentReadyToBurnEDinosur + burnAmt;
                 updatedNFTs = currentNFTs @ [newSlot (newId currentNFTs)]
             in (Inr \<lparr>calculatedCost = cost, burnAmount = burnAmt, daoAmount = daoAmt\<rparr>,
                 s\<lparr>staking := updateFirestoreStaking updatedNFTs remainingEDinosur
                                 newReadyToBurnEDinosur (staking s)\<rparr>)
           else (Inl InsufficientBalance, s))"

text \<open>The three quantities of a holder account, as every reader of the document takes them.\<close>

definition accruedBalance :: "db \<Rightarrow> real" where
  "accruedBalance s = orZero (earned (currentDataOf (staking s)))"

definition readyToBurn :: "db \<Rightarrow> real" where
  "readyToBurn s = orZero (readyToBurnEDinosur (currentDataOf (staking s)))"

definition assets :: "db \<Rightarrow> nft list" where
  "assets s = nftsOr (nfts (currentDataOf (staking s)))"

definition totalBurnt :: "db \<Rightarrow> real" where
  "totalBurnt s = orZero (totalBurntEDinosur (currentDataOf (staking s)))"

subsection \<open>Burn actions (handleBurnEDinosur, handleBurnDinosur)\<close>

text \<open>
  The reward section shows \<^verbatim>\<open>readyToBurnEDinosur\<close> and \<^verbatim>\<open>totalBurntEDinosur\<close> as its
  listener loads them: \<^verbatim>\<open>data.x || 0\<close> when the document exists, \<open>0\<close> otherwise.
  \<^verbatim>\<open>updateDoc\<close> needs the document to exist; the store rejects it otherwise and the
  handler's \<^verbatim>\<open>catch\<close> reports the failure.
\<close>

definition loaded :: "('d \<Rightarrow> real option) \<Rightarrow> 'd option \<Rightarrow> real" where
  "loaded field d = (case d of None \<Rightarrow> 0 | Some dt \<Rightarrow> orZero (field dt))"

definition handleBurnEDinosur :: "db \<Rightarrow> (error + real) \<times> db" where
  "handleBurnEDinosur s =
     (let ready = loaded readyToBurnEDinosur (staking s);
          total = loaded totalBurntEDinosur (staking s)
      in if ready > 0 then
           let newTotalBurnt = total + ready
           in (case staking s of
                 None \<Rightarrow> (Inl PersistenceFailure, s)
               | Some dt \<Rightarrow>
                   (Inr newTotalBurnt,
                    s\<lparr>staking := Some (dt\<lparr>readyToBurnEDinosur := Some 0,
                                           totalBurntEDinosur := Some newTotalBurnt\<rparr>)\<rparr>))
         else (Inl NothingToBurn, s))"

definition handleBurnDinosur :: "db \<Rightarrow> (error + real) \<times> db" where
  "handleBurnDinosur s =
     (let ready = loaded readyToBurnDinosur (burnStats s);
          total = loaded totalBurntDinosur (burnStats s)
      in if ready > 0 then
           let newTotalBurnt = total + ready
           in (case burnStats s of
                 None \<Rightarrow> (Inl PersistenceFailure, s)
               | Some dt \<Rightarrow>
                   (Inr newTotalBurnt,
                    s\<lparr>burnStats := Some (dt\<lparr>readyToBurnDinosur := Some 0,
                                             totalBurntDinosur := Some newTotalBurnt\<rparr>)\<rparr>))
         else (Inl NothingToBurn, s))"

text \<open>The two counters of the global ledger, as the coin section loads them.\<close>

definition globalReadyToBurn :: "db \<Rightarrow> real" where
  "globalReadyToBurn s = loaded readyToBurnDinosur (burnStats s)"

definition globalTotalBurnt :: "db \<Rightarrow> real" where
  "globalTotalBurnt s = loaded totalBurntDinosur (burnStats s)"

subsection \<open>Sale section: epoch clock (the countdown effect) and handleBuy\<close>

definition epochDurationDays :: int where
  "epochDurationDays = 7"

definition initialPrice :: real where
  "initialPrice = 0.00005"

definition priceIncreaseFactor :: real where
  "priceIncreaseFactor = 1.10"

definition MAX_EPOCH_PURCHASE_USD :: real where
  "MAX_EPOCH_PURCHASE_USD = 250"

text \<open>
  The state variables of the sale section. The three purchase variables mirror the fields
  \<^verbatim>\<open>totalPurchasedUSD\<close>, \<^verbatim>\<open>userPurchasedUSDInCurrentEpoch\<close> and
  \<^verbatim>\<open>lastPurchaseEpoch\<close> of the user's purchase document.
\<close>

record saleState =
  saleStarted :: bool
  currentEpoch :: int
  currentPrice :: real
  userPurchasedUSD :: real
  userPurchasedUSDInCurrentEpoch :: real
  lastPurchaseEpoch :: int

text \<open>The \<^verbatim>\<open>useState\<close> initial values.\<close>

definition initialSaleState :: saleState where
  "initialSaleState =
     \<lparr>saleStarted = False, currentEpoch = 0, currentPrice = initialPrice,
      userPurchasedUSD = 0, userPurchasedUSDInCurrentEpoch = 0, lastPurchaseEpoch = - 1\<rparr>"

definition epochMs :: int where
  "epochMs = epochDurationDays * 24 * 60 * 60 * 1000"

text \<open>\<^verbatim>\<open>Math.floor(elapsedMs / epochMs)\<close>\<close>

definition currentEpochNum :: "int \<Rightarrow> int \<Rightarrow> int" where
  "currentEpochNum saleStartTime now =
     (let elapsedMs = now - saleStartTime
      in \<lfloor>real_of_int elapsedMs / real_of_int epochMs\<rfloor>)"

text \<open>\<^verbatim>\<open>initialPrice * Math.pow(priceIncreaseFactor, currentEpochNum)\<close>\<close>

definition priceAt :: "int \<Rightarrow> real" where
  "priceAt e = initialPrice * Math_pow priceIncreaseFactor e"

text \<open>
  One firing of the one-second interval of the countdown effect, at clock reading \<open>now\<close>.
  When the epoch differs from \<^verbatim>\<open>lastPurchaseEpoch\<close> the per-epoch amount is set to 0;
  with a purchase document (a connected user) the same write stores the new epoch, which
  the listener loads back into \<^verbatim>\<open>lastPurchaseEpoch\<close>. The remaining-time display is
  presentation and is left out.
\<close>

definition countdownTick :: "string option \<Rightarrow> int \<Rightarrow> int \<Rightarrow> saleState \<Rightarrow> saleState" where
  "countdownTick userId saleStartTime now s =
     (let distance = saleStartTime - now
      in if distance < 0 then
           let num = currentEpochNum saleStartTime now;
               s1 = s\<lparr>saleStarted := True, currentEpoch := num, currentPrice := priceAt num\<rparr>
           in if num \<noteq> lastPurchaseEpoch s then
                (if connected userId
                 then s1\<lparr>userPurchasedUSDInCurrentEpoch := 0, lastPurchaseEpoch := num\<rparr>
                 else s1\<lparr>userPurchasedUSDInCurrentEpoch := 0\<rparr>)
              else s1
         else s\<lparr>saleStarted := False\<rparr>)"


text \<open>
  \<^verbatim>\<open>handleBuy\<close>; \<open>amountToBuy\<close> is the result of \<^verbatim>\<open>parseFloat(buyAmount)\<close>, \<open>None\<close>
  for \<^verbatim>\<open>NaN\<close>. A success returns the cost in USD.
\<close>

definition handleBuy :: "string option \<Rightarrow> real option \<Rightarrow> saleState \<Rightarrow> (error + real) \<times> saleState" where
  "handleBuy userId amountToBuy s =
     (if \<not> connected userId then (Inl NotAuthenticated, s)
      else if \<not> saleStarted s then (Inl SaleNotLive, s)
      else case amountToBuy of
             None \<Rightarrow> (Inl InvalidAmount, s)
           | Some amount \<Rightarrow>
               if amount \<le> 0 then (Inl InvalidAmount, s)
               else
                 let costUSD = amount * currentPrice s
                 in if userPurchasedUSD s + costUSD > 1000 then (Inl WalletCapExceeded, s)
                    else if userPurchasedUSDInCurrentEpoch s + costUSD > MAX_EPOCH_PURCHASE_USD
                    then (Inl EpochCapExceeded, s)
                    else
                      (Inr costUSD,
                       s\<lparr>userPurchasedUSD := userPurchasedUSD s + costUSD,
                         userPurchasedUSDInCurrentEpoch :=
                           userPurchasedUSDInCurrentEpoch s + costUSD,
                         lastPurchaseEpoch := currentEpoch s\<rparr>))"

subsection \<open>Raffle section: handleBuyTickets and handleSpin\<close>

definition EDINOSUR_TICKET_COST :: real where
  "EDINOSUR_TICKET_COST = 50000"

definition EDINOSUR_BURN_AMOUNT_PERCENTAGE :: real where
  "EDINOSUR_BURN_AMOUNT_PERCENTAGE = 0.1"

definition symbols :: "string list" where
  "symbols = ['''', '''', '''', '''', '''', '''']"

record raffleState =
  ticketCount :: nat
  isSpinning :: bool
  reel1 :: string
  reel2 :: string
  reel3 :: string

text \<open>
  The quantity input: \<^verbatim>\<open>Math.max(1, parseInt(e.target.value) || 1)\<close>, \<open>None\<close> for
  \<^verbatim>\<open>NaN\<close>.
\<close>

definition ticketQuantityOf :: "int option \<Rightarrow> nat" where
  "ticketQuantityOf v =
     (case v of None \<Rightarrow> 1 | Some n \<Rightarrow> if n = 0 then 1 else nat (max 1 n))"

text \<open>The effect that keeps \<^verbatim>\<open>totalCost\<close> at \<^verbatim>\<open>ticketQuantity * EDINOSUR_TICKET_COST\<close>.\<close>

definition totalCostOf :: "nat \<Rightarrow> real" where
  "totalCostOf ticketQuantity = real ticketQuantity * EDINOSUR_TICKET_COST"

text \<open>
  \<^verbatim>\<open>handleBuyTickets\<close>. The ticket count is written first (component state and raffle
  document), the staking document second, by \<^verbatim>\<open>updateDoc\<close>. A success returns the
  amount marked for burning.
\<close>

definition handleBuyTickets ::
  "string option \<Rightarrow> nat \<Rightarrow> raffleState \<Rightarrow> db \<Rightarrow> (error + real) \<times> raffleState \<times> db" where
  "handleBuyTickets userId ticketQuantity rs s =
     (if \<not> connected userId then (Inl NotAuthenticated, rs, s)
      else
        let totalCost = totalCostOf ticketQuantity;
            currentEDinosurBalance = loaded earned (staking s);
            currentReadyToBurnEDinosur = loaded readyToBurnEDinosur (staking s)
        in if currentEDinosurBalance \<ge> totalCost then
             let newTicketCount = ticketCount rs + ticketQuantity;
                 remainingEDinosur = currentEDinosurBalance - totalCost;
                 burnAmt = totalCost * EDINOSUR_BURN_AMOUNT_PERCENTAGE;
                 newReadyToBurnEDinosur = currentReadyToBurnEDinosur + burnAmt;
                 rs1 = rs\<lparr>ticketCount := newTicketCount\<rparr>
             in (case staking s of
                   None \<Rightarrow> (Inl PersistenceFailure, rs1, s)
                 | Some dt \<Rightarrow>
                     (Inr burnAmt, rs1,
                      s\<lparr>staking := Some (dt\<lparr>earned := Some remainingEDinosur,
                                             readyToBurnEDinosur := Some newReadyToBurnEDinosur\<rparr>)\<rparr>))
           else (Inl InsufficientBalance, rs, s))"

datatype spinResult = Jackpot | PartialMatch | NoWin

text \<open>The classification at the end of a spin.\<close>

definition spinResultOf :: "string \<Rightarrow> string \<Rightarrow> string \<Rightarrow> spinResult" where
  "spinResultOf finalReel1 finalReel2 finalReel3 =
     (if finalReel1 = finalReel2 \<and> finalReel2 = finalReel3 then Jackpot
      else if finalReel1 = finalReel2 \<or> finalReel2 = finalReel3 \<or> finalReel1 = finalReel3
      then PartialMatch
      else NoWin)"

text \<open>
  \<^verbatim>\<open>symbols[Math.floor(Math.random() * symbols.length)]\<close> at the value \<open>r\<close> that
  \<^verbatim>\<open>Math.random()\<close> returned; the language gives \<open>0 \<le> r < 1\<close>.
\<close>

definition drawSymbol :: "real \<Rightarrow> string" where
  "drawSymbol r = symbols ! nat \<lfloor>r * real (length symbols)\<rfloor>"

definition spinDuration :: nat where
  "spinDuration = 2000"

definition spinInterval :: nat where
  "spinInterval = 100"

text \<open>
  The click handler: it rejects a click while the reels spin, needs a ticket, and
  otherwise raises \<^verbatim>\<open>isSpinning\<close> and starts the interval. The success value is the
  ticket count the interval's closure holds.
\<close>

definition handleSpin :: "raffleState \<Rightarrow> (error + nat) \<times> raffleState" where
  "handleSpin rs =
     (if isSpinning rs then (Inl AlreadySpinning, rs)
      else if ticketCount rs > 0 then (Inr (ticketCount rs), rs\<lparr>isSpinning := True\<rparr>)
      else (Inl NoTicketsAvailable, rs))"

text \<open>
  The interval started by the click, run until it clears itself. \<open>rnd k\<close> is the result of
  the \<open>k\<close>-th call of \<^verbatim>\<open>Math.random()\<close> since the click, \<open>calls\<close> counts the calls made,
  \<open>spinTimer\<close> is the closure's timer and \<open>capturedCount\<close> the ticket count the closure
  holds. Every firing shows three fresh symbols; the firing that reaches
  \<^verbatim>\<open>spinDuration\<close> lowers \<^verbatim>\<open>isSpinning\<close>, consumes the ticket, draws the three final
  symbols and classifies them.
\<close>

function spinTimerRun ::
  "(nat \<Rightarrow> real) \<Rightarrow> nat \<Rightarrow> nat \<Rightarrow> nat \<Rightarrow> raffleState \<Rightarrow> spinResult \<times> raffleState" where
  "spinTimerRun rnd calls spinTimer capturedCount rs =
     (let rs1 = rs\<lparr>reel1 := drawSymbol (rnd calls),
                   reel2 := drawSymbol (rnd (calls + 1)),
                   reel3 := drawSymbol (rnd (calls + 2))\<rparr>;
          spinTimer1 = spinTimer + spinInterval
      in if spinTimer1 \<ge> spinDuration then
           let newTicketCount = capturedCount - 1;
               finalReel1 = drawSymbol (rnd (calls + 3));
               finalReel2 = drawSymbol (rnd (calls + 4));
               finalReel3 = drawSymbol (rnd (calls + 5))
           in (spinResultOf finalReel1 finalReel2 finalReel3,
               rs1\<lparr>isSpinning := False, ticketCount := newTicketCount,
                   reel1 := finalReel1, reel2 := finalReel2, reel3 := finalReel3\<rparr>)
         else spinTimerRun rnd (calls + 3) spinTimer1 capturedCount rs1)"
  by pat_completeness auto
termination
  by (relation "measure (\<lambda>(rnd, calls, spinTimer, capturedCount, rs). spinDuration - spinTimer)")
     (auto simp: spinDuration_def spinInterval_def)

declare spinTimerRun.simps [simp del]

text \<open>A whole spin: the click, then the interval to its end.\<close>

definition spin :: "(nat \<Rightarrow> real) \<Rightarrow> raffleState \<Rightarrow> (error + spinResult) \<times> raffleState" where
  "spin rnd rs =
     (case handleSpin rs of
        (Inl e, rs1) \<Rightarrow> (Inl e, rs1)
      | (Inr capturedCount, rs1) \<Rightarrow>
          (let (res, rs2) = spinTimerRun rnd 0 0 capturedCount rs1 in (Inr res, rs2)))"

section \<open>Properties\<close>

subsection \<open>Slot price\<close>



subsection \<open>Multiplier\<close>

text \<open>
  Claim C5. With \<open>S\<close> the set of types of the assets whose \<open>staked\<close> flag is set, the
  multiplier is 1.00 when \<open>S\<close> is empty, 1.50 when Legend is in \<open>S\<close>, else 1.30 when
  King is, else 1.15 when Unique is, else 1.05 when Common or Rare is. It is a function of
  \<open>S\<close> alone: two asset lists with the same \<open>S\<close> have the same multiplier, a second copy
  of a staked asset changes nothing, and an asset that is not staked is ignored.
\<close>

theorem calculateMultiplier_spec:
  "(stakedTypes ns = {} \<longrightarrow> calculateMultiplier ns = 1.00) \<and>
   (''Legend'' \<in> stakedTypes ns \<longrightarrow> calculateMultiplier ns = 1.50) \<and>
   (''Legend'' \<notin> stakedTypes ns \<and> ''King'' \<in> stakedTypes ns \<longrightarrow>
      calculateMultiplier ns = 1.30) \<and>
   (''Legend'' \<notin> stakedTypes ns \<and> ''King'' \<notin> stakedTypes ns \<and> ''Unique'' \<in> stakedTypes ns \<longrightarrow>
      calculateMultiplier ns = 1.15) \<and>
   (''Legend'' \<notin> stakedTypes ns \<and> ''King'' \<notin> stakedTypes ns \<and> ''Unique'' \<notin> stakedTypes ns \<and>
    (''Common'' \<in> stakedTypes ns \<or> ''Rare'' \<in> stakedTypes ns) \<longrightarrow>
      calculateMultiplier ns = 1.05) \<and>
   (stakedTypes ns = stakedTypes ms \<longrightarrow> calculateMultiplier ns = calculateMultiplier ms) \<and>
   (staked n \<longrightarrow> calculateMultiplier (n # n # ns) = calculateMultiplier (n # ns)) \<and>
   (\<not> staked n \<longrightarrow> calculateMultiplier (n # ns) = calculateMultiplier ns) \<and>
   stakedTypes ns = {type_nft n |n. n \<in> set ns \<and> staked n}"
  by (auto simp: calculateMultiplier_def stakedTypes_def Let_def)

text \<open>
  The theorem at five asset lists: a Legend that is not staked, a staked King with a
  staked Legend, a staked King with an idle Legend, two staked Uniques, one staked Rare.
\<close>

theorem calculateMultiplier_spec_witness:
  "stakedTypes [\<lparr>id_nft = 1, type_nft = ''Legend'', earning = 0, staked = False, lastStakedTime = 0\<rparr>] = {} \<and>
   calculateMultiplier
     [\<lparr>id_nft = 1, type_nft = ''Legend'', earning = 0, staked = False, lastStakedTime = 0\<rparr>] = 1 \<and>
   ''Legend'' \<in> stakedTypes
     [\<lparr>id_nft = 1, type_nft = ''King'', earning = 0, staked = True, lastStakedTime = 0\<rparr>,
      \<lparr>id_nft = 2, type_nft = ''Legend'', earning = 0, staked = True, lastStakedTime = 0\<rparr>] \<and>
   calculateMultiplier
     [\<lparr>id_nft = 1, type_nft = ''King'', earning = 0, staked = True, lastStakedTime = 0\<rparr>,
      \<lparr>id_nft = 2, type_nft = ''Legend'', earning = 0, staked = True, lastStakedTime = 0\<rparr>] = 1.5 \<and>
   ''King'' \<in> stakedTypes
     [\<lparr>id_nft = 1, type_nft = ''King'', earning = 0, staked = True, lastStakedTime = 0\<rparr>,
      \<lparr>id_nft = 2, type_nft = ''Legend'', earning = 0, staked = False, lastStakedTime = 0\<rparr>] \<and>
   ''Legend'' \<notin> stakedTypes
     [\<lparr>id_nft = 1, type_nft = ''King'', earning = 0, staked = True, lastStakedTime = 0\<rparr>,
      \<lparr>id_nft = 2, type_nft = ''Legend'', earning = 0, staked = False, lastStakedTime = 0\<rparr>] \<and>
   calculateMultiplier
     [\<lparr>id_nft = 1, type_nft = ''King'', earning = 0, staked = True, lastStakedTime = 0\<rparr>,
      \<lparr>id_nft = 2, type_nft = ''Legend'', earning = 0, staked = False, lastStakedTime = 0\<rparr>] = 1.3 \<and>
   ''Unique'' \<in> stakedTypes
     [\<lparr>id_nft = 3, type_nft = ''Unique'', earning = 15000, staked = True, lastStakedTime = 0\<rparr>,
      \<lparr>id_nft = 4, type_nft = ''Unique'', earning = 15000, staked = True, lastStakedTime = 0\<rparr>] \<and>
   calculateMultiplier
     [\<lparr>id_nft = 3, type_nft = ''Unique'', earning = 15000, staked = True, lastStakedTime = 0\<rparr>,
      \<lparr>id_nft = 4, type_nft = ''Unique'', earning = 15000, staked = True, lastStakedTime = 0\<rparr>] = 1.15 \<and>
   ''Rare'' \<in> stakedTypes
     [\<lparr>id_nft = 2, type_nft = ''Rare'', earning = 10000, staked = True, lastStakedTime = 0\<rparr>] \<and>
   calculateMultiplier
     [\<lparr>id_nft = 2, type_nft = ''Rare'', earning = 10000, staked = True, lastStakedTime = 0\<rparr>] = 1.05"
proof -
  let ?none = "[\<lparr>id_nft = 1, type_nft = ''Legend'', earning = 0, staked = False, lastStakedTime = 0\<rparr>]"
  let ?legend = "[\<lparr>id_nft = 1, type_nft = ''King'', earning = 0, staked = True, lastStakedTime = 0\<rparr>,
      \<lparr>id_nft = 2, type_nft = ''Legend'', earning = 0, staked = True, lastStakedTime = 0\<rparr>]"
  let ?king = "[\<lparr>id_nft = 1, type_nft = ''King'', earning = 0, staked = True, lastStakedTime = 0\<rparr>,
      \<lparr>id_nft = 2, type_nft = ''Legend'', earning = 0, staked = False, lastStakedTime = 0\<rparr>]"
  let ?unique = "[\<lparr>id_nft = 3, type_nft = ''Unique'', earning = 15000, staked = True, lastStakedTime = 0\<rparr>,
      \<lparr>id_nft = 4, type_nft = ''Unique'', earning = 15000, staked = True, lastStakedTime = 0\<rparr>]"
  let ?rare = "[\<lparr>id_nft = 2, type_nft = ''Rare'', earning = 10000, staked = True, lastStakedTime = 0\<rparr>]"
  have h1: "stakedTypes ?none = {}"
    by (simp add: stakedTypes_def)
  have h2: "''Legend'' \<in> stakedTypes ?legend"
    by (simp add: stakedTypes_def)
  have h3: "''King'' \<in> stakedTypes ?king" and n3: "''Legend'' \<notin> stakedTypes ?king"
    by (simp_all add: stakedTypes_def)
  have h4: "''Unique'' \<in> stakedTypes ?unique"
    and n4: "''Legend'' \<notin> stakedTypes ?unique \<and> ''King'' \<notin> stakedTypes ?unique"
    by (simp_all add: stakedTypes_def)
  have h5: "''Rare'' \<in> stakedTypes ?rare"
    and n5: "''Legend'' \<notin> stakedTypes ?rare \<and> ''King'' \<notin> stakedTypes ?rare \<and>
             ''Unique'' \<notin> stakedTypes ?rare"
    by (simp_all add: stakedTypes_def)
  have c1: "calculateMultiplier ?none = 1"
    using calculateMultiplier_spec [of ?none, THEN conjunct1] h1 by simp
  have c2: "calculateMultiplier ?legend = 1.5"
    using calculateMultiplier_spec [of ?legend, THEN conjunct2, THEN conjunct1] h2 by simp
  have c3: "calculateMultiplier ?king = 1.3"
    using calculateMultiplier_spec [of ?king, THEN conjunct2, THEN conjunct2, THEN conjunct1]
      h3 n3
    by simp
  have c4: "calculateMultiplier ?unique = 1.15"
    using calculateMultiplier_spec [of ?unique, THEN conjunct2, THEN conjunct2, THEN conjunct2,
        THEN conjunct1] h4 n4
    by simp
  have c5: "calculateMultiplier ?rare = 1.05"
    using calculateMultiplier_spec [of ?rare, THEN conjunct2, THEN conjunct2, THEN conjunct2,
        THEN conjunct2, THEN conjunct1] h5 n5
    by simp
  show ?thesis
    by (intro conjI) (rule h1 c1 h2 c2 h3 n3 c3 h4 c4 h5 c5)+
qed

subsection \<open>Slot purchase\<close>

text \<open>The accumulating maximum of \<open>Math_max\<close> is the maximum of the identifiers.\<close>

lemma Math_max_eq_Max: "Math_max m xs = Max (set (m # xs))"
proof (induction xs arbitrary: m)
  case Nil
  show ?case by simp
next
  case (Cons x xs)
  have "Max (insert m (insert x (set xs))) = Max (insert (max m x) (set xs))"
  proof (cases "set xs = {}")
    case True
    then show ?thesis by (simp add: max.commute)
  next
    case False
    then show ?thesis by (simp add: max.assoc max.commute max.left_commute)
  qed
  with Cons show ?case by simp
qed

lemma newId_eq:
  "newId ns = (if ns = [] then 1 else Max (id_nft ` set ns) + 1)"
  by (cases ns) (simp_all add: newId_def Math_max_eq_Max)

text \<open>
  Claim C1. For a connected user, with \<open>C\<close> the slot cost at the current number of assets:
  when the accrued balance is below \<open>C\<close> the purchase fails with InsufficientBalance and
  the whole store, hence balance, burn pool and asset list, is as before; when the balance
  is at least \<open>C\<close> the purchase succeeds, and one write debits the balance by \<open>C\<close>,
  credits the burn pool with \<open>C * 0.5\<close> and appends exactly one asset of type
  \<^verbatim>\<open>New Slot\<close> with earning 0, not staked, whose identifier is 1 on an empty list and
  the maximum existing identifier plus 1 otherwise. The total burnt and the global
  ledger stay as they were.
\<close>

theorem handleAddSlot_spec:
  assumes "connected userId"
  shows
    "(accruedBalance s < calculateAddSlotCost (length (assets s)) \<longrightarrow>
        handleAddSlot userId s = (Inl InsufficientBalance, s)) \<and>
     (accruedBalance s \<ge> calculateAddSlotCost (length (assets s)) \<longrightarrow>
        (\<exists>receipt s'.
           handleAddSlot userId s = (Inr receipt, s') \<and>
           calculatedCost receipt = calculateAddSlotCost (length (assets s)) \<and>
           burnAmount receipt = calculateAddSlotCost (length (assets s)) * 0.5 \<and>
           daoAmount receipt = calculatedCost receipt - burnAmount receipt \<and>
           accruedBalance s' = accruedBalance s - calculateAddSlotCost (length (assets s)) \<and>
           readyToBurn s' = readyToBurn s + calculateAddSlotCost (length (assets s)) * 0.5 \<and>
           assets s' =
             assets s @
             [\<lparr>id_nft = (if assets s = [] then 1 else Max (id_nft ` set (assets s)) + 1),
               type_nft = ''New Slot'', earning = 0, staked = False, lastStakedTime = 0\<rparr>] \<and>
           loaded totalBurntEDinosur (staking s') = loaded totalBurntEDinosur (staking s) \<and>
           burnStats s' = burnStats s))"
  using assms
  by (auto simp: handleAddSlot_def Let_def accruedBalance_def readyToBurn_def assets_def
      updateFirestoreStaking_def currentDataOf_def ADD_SLOT_BURN_AMOUNT_PERCENTAGE_def
      newSlot_def newId_eq loaded_def orZero_def nftsOr_def split: option.splits)

text \<open>
  The theorem on a user without a document (balance 0, the purchase fails) and on a
  user with balance 200000 and no asset (balance 0 and burn pool 100000 afterwards, one
  new asset with identifier 1).
\<close>

theorem handleAddSlot_spec_witness:
  "connected (Some ''u1'') \<and>
   accruedBalance \<lparr>staking = None, burnStats = None\<rparr>
     < calculateAddSlotCost (length (assets \<lparr>staking = None, burnStats = None\<rparr>)) \<and>
   handleAddSlot (Some ''u1'') \<lparr>staking = None, burnStats = None\<rparr>
     = (Inl InsufficientBalance, \<lparr>staking = None, burnStats = None\<rparr>) \<and>
   accruedBalance
     \<lparr>staking = Some \<lparr>nfts = Some [], earned = Some 200000, readyToBurnEDinosur = Some 0,
                        totalBurntEDinosur = Some 0\<rparr>, burnStats = None\<rparr>
     \<ge> calculateAddSlotCost (length (assets
          \<lparr>staking = Some \<lparr>nfts = Some [], earned = Some 200000, readyToBurnEDinosur = Some 0,
                             totalBurntEDinosur = Some 0\<rparr>, burnStats = None\<rparr>)) \<and>
   accruedBalance (snd (handleAddSlot (Some ''u1'')
     \<lparr>staking = Some \<lparr>nfts = Some [], earned = Some 200000, readyToBurnEDinosur = Some 0,
                        totalBurntEDinosur = Some 0\<rparr>, burnStats = None\<rparr>)) = 0 \<and>
   readyToBurn (snd (handleAddSlot (Some ''u1'')
     \<lparr>staking = Some \<lparr>nfts = Some [], earned = Some 200000, readyToBurnEDinosur = Some 0,
                        totalBurntEDinosur = Some 0\<rparr>, burnStats = None\<rparr>)) = 100000 \<and>
   assets (snd (handleAddSlot (Some ''u1'')
     \<lparr>staking = Some \<lparr>nfts = Some [], earned = Some 200000, readyToBurnEDinosur = Some 0,
                        totalBurntEDinosur = Some 0\<rparr>, burnStats = None\<rparr>))
     = [\<lparr>id_nft = 1, type_nft = ''New Slot'', earning = 0, staked = False, lastStakedTime = 0\<rparr>]"
proof -
  let ?s0 = "\<lparr>staking = None, burnStats = None\<rparr>"
  let ?s1 = "\<lparr>staking = Some \<lparr>nfts = Some [], earned = Some 200000, readyToBurnEDinosur = Some 0,
                        totalBurntEDinosur = Some 0\<rparr>, burnStats = None\<rparr>"
  have c: "connected (Some ''u1'')"
    by (simp add: connected_def)
  have a0: "assets ?s0 = []" and b0: "accruedBalance ?s0 = 0"
    by (simp_all add: assets_def accruedBalance_def currentDataOf_def nftsOr_def orZero_def)
  have a1: "assets ?s1 = []" and b1: "accruedBalance ?s1 = 200000" and r1: "readyToBurn ?s1 = 0"
    by (simp_all add: assets_def accruedBalance_def readyToBurn_def currentDataOf_def
        nftsOr_def orZero_def)
  have cost: "calculateAddSlotCost 0 = 200000"
    by (simp add: calculateAddSlotCost_def BASE_ADD_SLOT_EDINOSUR_COST_def)
  have lt: "accruedBalance ?s0 < calculateAddSlotCost (length (assets ?s0))"
    by (simp add: a0 b0 cost)
  have ge: "accruedBalance ?s1 \<ge> calculateAddSlotCost (length (assets ?s1))"
    by (simp add: a1 b1 cost)
  have fail: "handleAddSlot (Some ''u1'') ?s0 = (Inl InsufficientBalance, ?s0)"
    using handleAddSlot_spec [OF c, of ?s0, THEN conjunct1] lt by (rule mp)
  obtain receipt s' where ok: "handleAddSlot (Some ''u1'') ?s1 = (Inr receipt, s')"
    and bal: "accruedBalance s' = accruedBalance ?s1 - calculateAddSlotCost (length (assets ?s1))"
    and rdy: "readyToBurn s' = readyToBurn ?s1 + calculateAddSlotCost (length (assets ?s1)) * 0.5"
    and ast: "assets s' = assets ?s1 @
             [\<lparr>id_nft = (if assets ?s1 = [] then 1 else Max (id_nft ` set (assets ?s1)) + 1),
               type_nft = ''New Slot'', earning = 0, staked = False, lastStakedTime = 0\<rparr>]"
    using handleAddSlot_spec [OF c, of ?s1, THEN conjunct2] ge by blast
  have s': "snd (handleAddSlot (Some ''u1'') ?s1) = s'"
    by (simp only: ok snd_conv)
  have "accruedBalance s' = 0"
    by (simp add: bal a1 b1 cost)
  moreover have "readyToBurn s' = 100000"
    by (simp add: rdy a1 r1 cost)
  moreover have "assets s' =
     [\<lparr>id_nft = 1, type_nft = ''New Slot'', earning = 0, staked = False, lastStakedTime = 0\<rparr>]"
    by (simp add: ast a1)
  ultimately show ?thesis
    using c lt fail ge by (simp add: s')
qed

subsection \<open>Reading the staking document\<close>

text \<open>
  The listener's defaulting and the defaulting of \<^verbatim>\<open>handleAddSlot\<close> read the same
  amounts; a positive amount is read from a document that exists.
\<close>

lemma accruedBalance_loaded: "accruedBalance s = loaded earned (staking s)"
  by (simp add: accruedBalance_def loaded_def currentDataOf_def orZero_def split: option.splits)

lemma readyToBurn_loaded: "readyToBurn s = loaded readyToBurnEDinosur (staking s)"
  by (simp add: readyToBurn_def loaded_def currentDataOf_def orZero_def split: option.splits)

lemma totalBurnt_loaded: "totalBurnt s = loaded totalBurntEDinosur (staking s)"
  by (simp add: totalBurnt_def loaded_def currentDataOf_def orZero_def split: option.splits)

lemma loaded_pos_exists: "0 < loaded f d \<Longrightarrow> \<exists>dt. d = Some dt"
  by (cases d) (simp_all add: loaded_def)

subsection \<open>Ticket quantity\<close>

text \<open>The quantity input never yields less than one ticket.\<close>

lemma ticketQuantityOf_ge_1: "1 \<le> ticketQuantityOf v"
  by (cases v) (auto simp: ticketQuantityOf_def max_def)

subsection \<open>Ticket purchase\<close>

text \<open>
  Claim C4. For a connected user and a quantity of at least 1, with the total cost
  \<open>quantity * 50000\<close>: when the accrued balance is below the total cost the purchase
  fails with InsufficientBalance and balance, burn pool and ticket count are as before;
  otherwise the balance is debited by the total cost, the ticket count grows by the
  quantity and the burn pool by the total cost times 0.10. Assets, total burnt and the
  global ledger are not touched.
\<close>

theorem handleBuyTickets_spec:
  assumes "connected userId" and "ticketQuantity \<ge> 1"
  shows
    "(accruedBalance s < real ticketQuantity * 50000 \<longrightarrow>
        handleBuyTickets userId ticketQuantity rs s = (Inl InsufficientBalance, rs, s)) \<and>
     (accruedBalance s \<ge> real ticketQuantity * 50000 \<longrightarrow>
        (\<exists>s'.
           handleBuyTickets userId ticketQuantity rs s =
             (Inr (real ticketQuantity * 50000 * 0.10),
              rs\<lparr>ticketCount := ticketCount rs + ticketQuantity\<rparr>, s') \<and>
           accruedBalance s' = accruedBalance s - real ticketQuantity * 50000 \<and>
           readyToBurn s' = readyToBurn s + real ticketQuantity * 50000 * 0.10 \<and>
           assets s' = assets s \<and> totalBurnt s' = totalBurnt s \<and>
           burnStats s' = burnStats s))"
proof (intro conjI impI)
  assume "accruedBalance s < real ticketQuantity * 50000"
  with assms show "handleBuyTickets userId ticketQuantity rs s = (Inl InsufficientBalance, rs, s)"
    by (simp add: handleBuyTickets_def Let_def totalCostOf_def EDINOSUR_TICKET_COST_def
        accruedBalance_loaded)
next
  assume ge: "accruedBalance s \<ge> real ticketQuantity * 50000"
  from assms(2) have "0 < real ticketQuantity * 50000" by simp
  with ge have "0 < loaded earned (staking s)" by (simp add: accruedBalance_loaded)
  then obtain dt where dt: "staking s = Some dt" using loaded_pos_exists by blast
  show "\<exists>s'. handleBuyTickets userId ticketQuantity rs s =
             (Inr (real ticketQuantity * 50000 * 0.10),
              rs\<lparr>ticketCount := ticketCount rs + ticketQuantity\<rparr>, s') \<and>
           accruedBalance s' = accruedBalance s - real ticketQuantity * 50000 \<and>
           readyToBurn s' = readyToBurn s + real ticketQuantity * 50000 * 0.10 \<and>
           assets s' = assets s \<and> totalBurnt s' = totalBurnt s \<and>
           burnStats s' = burnStats s"
    using assms(1) ge dt
    by (simp add: handleBuyTickets_def Let_def totalCostOf_def EDINOSUR_TICKET_COST_def
        EDINOSUR_BURN_AMOUNT_PERCENTAGE_def accruedBalance_def readyToBurn_def assets_def
        totalBurnt_def currentDataOf_def loaded_def orZero_def)
qed

text \<open>
  The theorem at 3 tickets: from balance 100000 the purchase fails; from balance 200000
  it leaves balance 50000, 15000 more in the burn pool and 3 tickets.
\<close>

theorem handleBuyTickets_spec_witness:
  "connected (Some ''u1'') \<and> (3::nat) \<ge> 1 \<and>
   accruedBalance
     \<lparr>staking = Some \<lparr>nfts = Some [], earned = Some 100000, readyToBurnEDinosur = Some 0,
                        totalBurntEDinosur = Some 0\<rparr>, burnStats = None\<rparr> < real 3 * 50000 \<and>
   handleBuyTickets (Some ''u1'') 3
     \<lparr>ticketCount = 0, isSpinning = False, reel1 = '''', reel2 = '''', reel3 = ''''\<rparr>
     \<lparr>staking = Some \<lparr>nfts = Some [], earned = Some 100000, readyToBurnEDinosur = Some 0,
                        totalBurntEDinosur = Some 0\<rparr>, burnStats = None\<rparr>
   = (Inl InsufficientBalance,
      \<lparr>ticketCount = 0, isSpinning = False, reel1 = '''', reel2 = '''', reel3 = ''''\<rparr>,
      \<lparr>staking = Some \<lparr>nfts = Some [], earned = Some 100000, readyToBurnEDinosur = Some 0,
                         totalBurntEDinosur = Some 0\<rparr>, burnStats = None\<rparr>) \<and>
   accruedBalance
     \<lparr>staking = Some \<lparr>nfts = Some [], earned = Some 200000, readyToBurnEDinosur = Some 0,
                        totalBurntEDinosur = Some 0\<rparr>, burnStats = None\<rparr> \<ge> real 3 * 50000 \<and>
   fst (handleBuyTickets (Some ''u1'') 3
     \<lparr>ticketCount = 0, isSpinning = False, reel1 = '''', reel2 = '''', reel3 = ''''\<rparr>
     \<lparr>staking = Some \<lparr>nfts = Some [], earned = Some 200000, readyToBurnEDinosur = Some 0,
                        totalBurntEDinosur = Some 0\<rparr>, burnStats = None\<rparr>) = Inr 15000 \<and>
   ticketCount (fst (snd (handleBuyTickets (Some ''u1'') 3
     \<lparr>ticketCount = 0, isSpinning = False, reel1 = '''', reel2 = '''', reel3 = ''''\<rparr>
     \<lparr>staking = Some \<lparr>nfts = Some [], earned = Some 200000, readyToBurnEDinosur = Some 0,
                        totalBurntEDinosur = Some 0\<rparr>, burnStats = None\<rparr>))) = 3 \<and>
   accruedBalance (snd (snd (handleBuyTickets (Some ''u1'') 3
     \<lparr>ticketCount = 0, isSpinning = False, reel1 = '''', reel2 = '''', reel3 = ''''\<rparr>
     \<lparr>staking = Some \<lparr>nfts = Some [], earned = Some 200000, readyToBurnEDinosur = Some 0,
                        totalBurntEDinosur = Some 0\<rparr>, burnStats = None\<rparr>))) = 50000 \<and>
   readyToBurn (snd (snd (handleBuyTickets (Some ''u1'') 3
     \<lparr>ticketCount = 0, isSpinning = False, reel1 = '''', reel2 = '''', reel3 = ''''\<rparr>
     \<lparr>staking = Some \<lparr>nfts = Some [], earned = Some 200000, readyToBurnEDinosur = Some 0,
                        totalBurntEDinosur = Some 0\<rparr>, burnStats = None\<rparr>))) = 15000"
proof -
  let ?rs = "\<lparr>ticketCount = 0, isSpinning = False, reel1 = '''', reel2 = '''', reel3 = ''''\<rparr>"
  let ?s0 = "\<lparr>staking = Some \<lparr>nfts = Some [], earned = Some 100000, readyToBurnEDinosur = Some 0,
                        totalBurntEDinosur = Some 0\<rparr>, burnStats = None\<rparr>"
  let ?s1 = "\<lparr>staking = Some \<lparr>nfts = Some [], earned = Some 200000, readyToBurnEDinosur = Some 0,
                        totalBurntEDinosur = Some 0\<rparr>, burnStats = None\<rparr>"
  have c: "connected (Some ''u1'')"
    by (simp add: connected_def)
  have q: "(3::nat) \<ge> 1"
    by simp
  have b0: "accruedBalance ?s0 = 100000"
    and b1: "accruedBalance ?s1 = 200000" and r1: "readyToBurn ?s1 = 0"
    by (simp_all add: accruedBalance_def readyToBurn_def currentDataOf_def orZero_def)
  have lt: "accruedBalance ?s0 < real 3 * 50000"
    by (simp add: b0)
  have ge: "accruedBalance ?s1 \<ge> real 3 * 50000"
    by (simp add: b1)
  have fail: "handleBuyTickets (Some ''u1'') 3 ?rs ?s0 = (Inl InsufficientBalance, ?rs, ?s0)"
    using handleBuyTickets_spec [OF c q, of ?s0 ?rs, THEN conjunct1] lt by (rule mp)
  obtain s' where ok: "handleBuyTickets (Some ''u1'') 3 ?rs ?s1 =
        (Inr (real 3 * 50000 * 0.10), ?rs\<lparr>ticketCount := ticketCount ?rs + 3\<rparr>, s')"
    and bal: "accruedBalance s' = accruedBalance ?s1 - real 3 * 50000"
    and rdy: "readyToBurn s' = readyToBurn ?s1 + real 3 * 50000 * 0.10"
    using handleBuyTickets_spec [OF c q, of ?s1 ?rs, THEN conjunct2] ge by blast
  have "fst (handleBuyTickets (Some ''u1'') 3 ?rs ?s1) = Inr 15000"
    by (simp add: ok)
  moreover have "ticketCount (fst (snd (handleBuyTickets (Some ''u1'') 3 ?rs ?s1))) = 3"
    by (simp add: ok)
  moreover have "accruedBalance (snd (snd (handleBuyTickets (Some ''u1'') 3 ?rs ?s1))) = 50000"
    by (simp add: ok bal b1)
  moreover have "readyToBurn (snd (snd (handleBuyTickets (Some ''u1'') 3 ?rs ?s1))) = 15000"
    by (simp add: ok rdy r1)
  ultimately show ?thesis
    using c q lt ge fail by (intro conjI)
qed

subsection \<open>Burn actions\<close>

text \<open>
  Claim C6. On the user's ledger: when the amount ready to burn is 0 the burn fails with
  NothingToBurn and nothing changes; when it is positive (amounts are never negative) the
  whole amount is added to the total burnt and the amount ready to burn becomes 0. The
  global ledger obeys the same contract under its own action. A burn on the user's ledger
  leaves the global document as it was, and a burn on the global ledger leaves the user's
  document as it was.
\<close>

theorem burnAll_spec:
  "(readyToBurn s = 0 \<longrightarrow> handleBurnEDinosur s = (Inl NothingToBurn, s)) \<and>
   (0 < readyToBurn s \<longrightarrow>
      (\<exists>s'. handleBurnEDinosur s = (Inr (totalBurnt s + readyToBurn s), s') \<and>
            totalBurnt s' = totalBurnt s + readyToBurn s \<and> readyToBurn s' = 0 \<and>
            accruedBalance s' = accruedBalance s \<and> assets s' = assets s \<and>
            burnStats s' = burnStats s)) \<and>
   (globalReadyToBurn s = 0 \<longrightarrow> handleBurnDinosur s = (Inl NothingToBurn, s)) \<and>
   (0 < globalReadyToBurn s \<longrightarrow>
      (\<exists>s'. handleBurnDinosur s = (Inr (globalTotalBurnt s + globalReadyToBurn s), s') \<and>
            globalTotalBurnt s' = globalTotalBurnt s + globalReadyToBurn s \<and>
            globalReadyToBurn s' = 0 \<and>
            staking s' = staking s))"
proof (intro conjI impI)
  assume "readyToBurn s = 0"
  then show "handleBurnEDinosur s = (Inl NothingToBurn, s)"
    by (simp add: handleBurnEDinosur_def readyToBurn_loaded)
next
  assume pos: "0 < readyToBurn s"
  then obtain dt where dt: "staking s = Some dt"
    using loaded_pos_exists [of readyToBurnEDinosur "staking s"] by (auto simp: readyToBurn_loaded)
  show "\<exists>s'. handleBurnEDinosur s = (Inr (totalBurnt s + readyToBurn s), s') \<and>
            totalBurnt s' = totalBurnt s + readyToBurn s \<and> readyToBurn s' = 0 \<and>
            accruedBalance s' = accruedBalance s \<and> assets s' = assets s \<and>
            burnStats s' = burnStats s"
    using pos dt
    by (simp add: handleBurnEDinosur_def Let_def accruedBalance_def readyToBurn_def assets_def
        totalBurnt_def currentDataOf_def loaded_def orZero_def)
next
  assume "globalReadyToBurn s = 0"
  then show "handleBurnDinosur s = (Inl NothingToBurn, s)"
    by (simp add: handleBurnDinosur_def globalReadyToBurn_def)
next
  assume pos: "0 < globalReadyToBurn s"
  then obtain dt where dt: "burnStats s = Some dt"
    using loaded_pos_exists [of readyToBurnDinosur "burnStats s"]
    by (auto simp: globalReadyToBurn_def)
  show "\<exists>s'. handleBurnDinosur s = (Inr (globalTotalBurnt s + globalReadyToBurn s), s') \<and>
            globalTotalBurnt s' = globalTotalBurnt s + globalReadyToBurn s \<and>
            globalReadyToBurn s' = 0 \<and>
            staking s' = staking s"
    using pos dt
    by (simp add: handleBurnDinosur_def Let_def globalReadyToBurn_def globalTotalBurnt_def
        loaded_def orZero_def)
qed

text \<open>
  The theorem on an empty store (both burns fail) and on a store with 100000 ready and
  15000 burnt for the user, 7 ready and 1 burnt globally.
\<close>

theorem burnAll_spec_witness:
  "readyToBurn \<lparr>staking = None, burnStats = None\<rparr> = 0 \<and>
   handleBurnEDinosur \<lparr>staking = None, burnStats = None\<rparr>
     = (Inl NothingToBurn, \<lparr>staking = None, burnStats = None\<rparr>) \<and>
   globalReadyToBurn \<lparr>staking = None, burnStats = None\<rparr> = 0 \<and>
   handleBurnDinosur \<lparr>staking = None, burnStats = None\<rparr>
     = (Inl NothingToBurn, \<lparr>staking = None, burnStats = None\<rparr>) \<and>
   0 < readyToBurn
     \<lparr>staking = Some \<lparr>nfts = Some [], earned = Some 0, readyToBurnEDinosur = Some 100000,
                        totalBurntEDinosur = Some 15000\<rparr>,
      burnStats = Some \<lparr>readyToBurnDinosur = Some 7, totalBurntDinosur = Some 1\<rparr>\<rparr> \<and>
   handleBurnEDinosur
     \<lparr>staking = Some \<lparr>nfts = Some [], earned = Some 0, readyToBurnEDinosur = Some 100000,
                        totalBurntEDinosur = Some 15000\<rparr>,
      burnStats = Some \<lparr>readyToBurnDinosur = Some 7, totalBurntDinosur = Some 1\<rparr>\<rparr>
     = (Inr 115000,
        \<lparr>staking = Some \<lparr>nfts = Some [], earned = Some 0, readyToBurnEDinosur = Some 0,
                           totalBurntEDinosur = Some 115000\<rparr>,
         burnStats = Some \<lparr>readyToBurnDinosur = Some 7, totalBurntDinosur = Some 1\<rparr>\<rparr>) \<and>
   0 < globalReadyToBurn
     \<lparr>staking = Some \<lparr>nfts = Some [], earned = Some 0, readyToBurnEDinosur = Some 100000,
                        totalBurntEDinosur = Some 15000\<rparr>,
      burnStats = Some \<lparr>readyToBurnDinosur = Some 7, totalBurntDinosur = Some 1\<rparr>\<rparr> \<and>
   handleBurnDinosur
     \<lparr>staking = Some \<lparr>nfts = Some [], earned = Some 0, readyToBurnEDinosur = Some 100000,
                        totalBurntEDinosur = Some 15000\<rparr>,
      burnStats = Some \<lparr>readyToBurnDinosur = Some 7, totalBurntDinosur = Some 1\<rparr>\<rparr>
     = (Inr 8,
        \<lparr>staking = Some \<lparr>nfts = Some [], earned = Some 0, readyToBurnEDinosur = Some 100000,
                           totalBurntEDinosur = Some 15000\<rparr>,
         burnStats = Some \<lparr>readyToBurnDinosur = Some 0, totalBurntDinosur = Some 8\<rparr>\<rparr>)"
proof -
  let ?s0 = "\<lparr>staking = None, burnStats = None\<rparr>"
  let ?s1 = "\<lparr>staking = Some \<lparr>nfts = Some [], earned = Some 0, readyToBurnEDinosur = Some 100000,
                        totalBurntEDinosur = Some 15000\<rparr>,
      burnStats = Some \<lparr>readyToBurnDinosur = Some 7, totalBurntDinosur = Some 1\<rparr>\<rparr>"
  have z: "readyToBurn ?s0 = 0" and gz: "globalReadyToBurn ?s0 = 0"
    by (simp_all add: readyToBurn_def globalReadyToBurn_def currentDataOf_def loaded_def
        orZero_def)
  have p: "0 < readyToBurn ?s1" and gp: "0 < globalReadyToBurn ?s1"
    by (simp_all add: readyToBurn_def globalReadyToBurn_def currentDataOf_def loaded_def
        orZero_def)
  have f1: "handleBurnEDinosur ?s0 = (Inl NothingToBurn, ?s0)"
    using burnAll_spec [of ?s0, THEN conjunct1] z by (rule mp)
  have f2: "handleBurnDinosur ?s0 = (Inl NothingToBurn, ?s0)"
    using burnAll_spec [of ?s0, THEN conjunct2, THEN conjunct2, THEN conjunct1] gz by (rule mp)
  obtain s' where "handleBurnEDinosur ?s1 = (Inr (totalBurnt ?s1 + readyToBurn ?s1), s')"
    using burnAll_spec [of ?s1, THEN conjunct2, THEN conjunct1] p by blast
  then have u: "fst (handleBurnEDinosur ?s1) = Inr 115000"
    by (simp add: totalBurnt_def readyToBurn_def currentDataOf_def orZero_def)
  obtain s'' where
    "handleBurnDinosur ?s1 = (Inr (globalTotalBurnt ?s1 + globalReadyToBurn ?s1), s'')"
    using burnAll_spec [of ?s1, THEN conjunct2, THEN conjunct2, THEN conjunct2] gp by blast
  then have g: "fst (handleBurnDinosur ?s1) = Inr 8"
    by (simp add: globalTotalBurnt_def globalReadyToBurn_def loaded_def orZero_def)
  have u': "snd (handleBurnEDinosur ?s1) =
        \<lparr>staking = Some \<lparr>nfts = Some [], earned = Some 0, readyToBurnEDinosur = Some 0,
                           totalBurntEDinosur = Some 115000\<rparr>,
         burnStats = Some \<lparr>readyToBurnDinosur = Some 7, totalBurntDinosur = Some 1\<rparr>\<rparr>"
    by (simp add: handleBurnEDinosur_def loaded_def orZero_def)
  have g': "snd (handleBurnDinosur ?s1) =
        \<lparr>staking = Some \<lparr>nfts = Some [], earned = Some 0, readyToBurnEDinosur = Some 100000,
                           totalBurntEDinosur = Some 15000\<rparr>,
         burnStats = Some \<lparr>readyToBurnDinosur = Some 0, totalBurntDinosur = Some 8\<rparr>\<rparr>"
    by (simp add: handleBurnDinosur_def loaded_def orZero_def)
  have e1: "handleBurnEDinosur ?s1 = (Inr 115000,
        \<lparr>staking = Some \<lparr>nfts = Some [], earned = Some 0, readyToBurnEDinosur = Some 0,
                           totalBurntEDinosur = Some 115000\<rparr>,
         burnStats = Some \<lparr>readyToBurnDinosur = Some 7, totalBurntDinosur = Some 1\<rparr>\<rparr>)"
    using u u' by (simp add: prod_eq_iff)
  have e2: "handleBurnDinosur ?s1 = (Inr 8,
        \<lparr>staking = Some \<lparr>nfts = Some [], earned = Some 0, readyToBurnEDinosur = Some 100000,
                           totalBurntEDinosur = Some 15000\<rparr>,
         burnStats = Some \<lparr>readyToBurnDinosur = Some 0, totalBurntDinosur = Some 8\<rparr>\<rparr>)"
    using g g' by (simp add: prod_eq_iff)
  show ?thesis
    using z f1 gz f2 p e1 gp e2 by (intro conjI)
qed

subsection \<open>Sale clock: epoch index and price\<close>







lemma currentEpochNum_div: "currentEpochNum T0 now = (now - T0) div epochMs"
  unfolding currentEpochNum_def Let_def by (rule floor_divide_of_int_eq)








subsection \<open>Sale purchase\<close>

text \<open>
  The price shown is the price of the epoch shown: so it is initially, and the clock and
  a purchase keep it so.
\<close>

lemma price_inv_initial: "currentPrice initialSaleState = priceAt (currentEpoch initialSaleState)"
  by (simp add: initialSaleState_def priceAt_def Math_pow_def)

lemma price_inv_countdownTick:
  "currentPrice s = priceAt (currentEpoch s) \<Longrightarrow>
   currentPrice (countdownTick u T0 now s) = priceAt (currentEpoch (countdownTick u T0 now s))"
  by (simp add: countdownTick_def Let_def)

lemma price_inv_handleBuy:
  "currentPrice s = priceAt (currentEpoch s) \<Longrightarrow>
   currentPrice (snd (handleBuy u a s)) = priceAt (currentEpoch (snd (handleBuy u a s)))"
  by (simp add: handleBuy_def Let_def split: option.splits)



subsection \<open>Epoch reset\<close>



subsection \<open>Raffle spin\<close>

text \<open>
  The interval fires 20 times: a firing that does not reach \<^verbatim>\<open>spinDuration\<close> only
  shows symbols, the 20th ends the spin with the calls 60, 61 and 62 of
  \<^verbatim>\<open>Math.random()\<close>.
\<close>

lemma spinTimerRun_finish:
  "spinTimer + spinInterval \<ge> spinDuration \<Longrightarrow>
   spinTimerRun rnd calls spinTimer c rs =
     (spinResultOf (drawSymbol (rnd (calls + 3))) (drawSymbol (rnd (calls + 4)))
        (drawSymbol (rnd (calls + 5))),
      rs\<lparr>isSpinning := False, ticketCount := c - 1,
         reel1 := drawSymbol (rnd (calls + 3)), reel2 := drawSymbol (rnd (calls + 4)),
         reel3 := drawSymbol (rnd (calls + 5))\<rparr>)"
  by (subst spinTimerRun.simps) (simp add: Let_def)

lemma spinTimerRun_continue:
  "spinTimer + spinInterval < spinDuration \<Longrightarrow>
   spinTimerRun rnd calls spinTimer c rs =
     spinTimerRun rnd (calls + 3) (spinTimer + spinInterval) c
       (rs\<lparr>reel1 := drawSymbol (rnd calls), reel2 := drawSymbol (rnd (calls + 1)),
           reel3 := drawSymbol (rnd (calls + 2))\<rparr>)"
  by (subst spinTimerRun.simps) (simp add: Let_def)

lemma spinTimerRun_from:
  "k < 20 \<Longrightarrow>
   spinTimerRun rnd calls (spinInterval * k) c rs =
     (spinResultOf (drawSymbol (rnd (calls + 3 * (20 - k))))
        (drawSymbol (rnd (calls + 3 * (20 - k) + 1)))
        (drawSymbol (rnd (calls + 3 * (20 - k) + 2))),
      rs\<lparr>isSpinning := False, ticketCount := c - 1,
         reel1 := drawSymbol (rnd (calls + 3 * (20 - k))),
         reel2 := drawSymbol (rnd (calls + 3 * (20 - k) + 1)),
         reel3 := drawSymbol (rnd (calls + 3 * (20 - k) + 2))\<rparr>)"
proof (induction "19 - k" arbitrary: k calls rs)
  case 0
  then have k: "k = 19" by simp
  have "spinInterval * k + spinInterval \<ge> spinDuration"
    by (simp add: k spinInterval_def spinDuration_def)
  then show ?case
    by (simp add: spinTimerRun_finish k add.commute)
next
  case (Suc n)
  then have k: "k < 19" and n: "n = 19 - Suc k" and k': "Suc k < 20"
    by simp_all
  have lt: "spinInterval * k + spinInterval < spinDuration"
    using k by (simp add: spinInterval_def spinDuration_def)
  have step: "spinInterval * k + spinInterval = spinInterval * Suc k"
    by simp
  have idx: "calls + 3 + 3 * (20 - Suc k) = calls + 3 * (20 - k)"
    using k by simp
  show ?case
    by (simp only: spinTimerRun_continue [OF lt] step Suc.hyps(1) [OF n k'] idx) simp
qed

lemma spinTimerRun_whole:
  "spinTimerRun rnd 0 0 c rs =
     (spinResultOf (drawSymbol (rnd 60)) (drawSymbol (rnd 61)) (drawSymbol (rnd 62)),
      rs\<lparr>isSpinning := False, ticketCount := c - 1,
         reel1 := drawSymbol (rnd 60), reel2 := drawSymbol (rnd 61),
         reel3 := drawSymbol (rnd 62)\<rparr>)"
  using spinTimerRun_from [of 0 rnd 0 c rs] by simp

text \<open>
  A result \<open>r\<close> of \<^verbatim>\<open>Math.random()\<close> selects an entry of the alphabet, the entry
  \<open>i\<close> exactly on the interval from \<open>i / 6\<close> to \<open>(i + 1) / 6\<close>; every entry is the
  empty string.
\<close>

lemma length_symbols: "length symbols = 6"
  by (simp add: symbols_def)

lemma drawSymbol_index:
  assumes "0 \<le> r" and "r < 1"
  shows "nat \<lfloor>r * real (length symbols)\<rfloor> < length symbols"
proof -
  have "r * 6 < 6" using assms by simp
  then have "\<lfloor>r * 6\<rfloor> < 6" by (simp add: floor_less_iff)
  moreover have "0 \<le> \<lfloor>r * 6\<rfloor>" using assms by simp
  ultimately have "nat \<lfloor>r * 6\<rfloor> < 6" by linarith
  then show ?thesis by (simp add: length_symbols)
qed

lemma drawSymbol_in_alphabet: "0 \<le> r \<Longrightarrow> r < 1 \<Longrightarrow> drawSymbol r \<in> set symbols"
  unfolding drawSymbol_def by (rule nth_mem) (rule drawSymbol_index)

lemma symbols_set: "set symbols = {''''}"
  by (simp add: symbols_def)

lemma drawSymbol_empty: "0 \<le> r \<Longrightarrow> r < 1 \<Longrightarrow> drawSymbol r = ''''"
  using drawSymbol_in_alphabet [of r] by (simp add: symbols_set)


lemma spin_started:
  "\<not> isSpinning rs \<Longrightarrow> 0 < ticketCount rs \<Longrightarrow>
   spin rnd rs =
     (Inr (spinResultOf (drawSymbol (rnd 60)) (drawSymbol (rnd 61)) (drawSymbol (rnd 62))),
      rs\<lparr>isSpinning := False, ticketCount := ticketCount rs - 1,
         reel1 := drawSymbol (rnd 60), reel2 := drawSymbol (rnd 61),
         reel3 := drawSymbol (rnd 62)\<rparr>)"
  by (simp add: spin_def handleSpin_def spinTimerRun_whole)

lemma spin_rejected:
  "isSpinning rs \<Longrightarrow> spin rnd rs = (Inl AlreadySpinning, rs)"
  "\<not> isSpinning rs \<Longrightarrow> ticketCount rs = 0 \<Longrightarrow> spin rnd rs = (Inl NoTicketsAvailable, rs)"
  by (simp_all add: spin_def handleSpin_def)

text \<open>
  While the reels spin the account holds a ticket: the click needs one, a purchase adds
  some, and the end of the interval lowers \<^verbatim>\<open>isSpinning\<close>.
\<close>

lemma spinning_has_ticket:
  assumes "isSpinning rs \<longrightarrow> 0 < ticketCount rs"
  shows "isSpinning (snd (handleSpin rs)) \<longrightarrow> 0 < ticketCount (snd (handleSpin rs))"
    and "isSpinning (fst (snd (handleBuyTickets u q rs s))) \<longrightarrow>
         0 < ticketCount (fst (snd (handleBuyTickets u q rs s)))"
    and "\<not> isSpinning (snd (spinTimerRun rnd 0 0 c rs))"
  using assms
  by (auto simp: handleSpin_def handleBuyTickets_def Let_def spinTimerRun_whole
      split: option.splits)

text \<open>
  The end of the interval writes the count the closure holds, whatever the account shows
  by then: tickets bought between the click and the end are not in the count it writes.
\<close>

lemma spin_end_writes_captured_count:
  "ticketCount (snd (spinTimerRun rnd 0 0 c rs)) = c - 1"
  by (simp add: spinTimerRun_whole)



text \<open>
  Claim C10. The alphabet is six times the empty string. So for every random source
  with results in the unit interval, a spin that completes ends with three equal final
  symbols and the outcome Jackpot; no spin returns PartialMatch or NoWin, and no three
  entries of the alphabet are classified otherwise than Jackpot.
\<close>

theorem spin_always_jackpot:
  assumes "\<forall>k. 0 \<le> rnd k \<and> rnd k < 1"
  shows
    "symbols = replicate 6 '''' \<and>
     (\<not> isSpinning rs \<and> 0 < ticketCount rs \<longrightarrow>
        (\<exists>rs'. spin rnd rs = (Inr Jackpot, rs') \<and>
               reel1 rs' = reel2 rs' \<and> reel2 rs' = reel3 rs' \<and> reel3 rs' = '''')) \<and>
     fst (spin rnd rs) \<noteq> Inr PartialMatch \<and> fst (spin rnd rs) \<noteq> Inr NoWin \<and>
     (\<forall>a \<in> set symbols. \<forall>b \<in> set symbols. \<forall>c \<in> set symbols.
        spinResultOf a b c = Jackpot)"
proof -
  have d: "drawSymbol (rnd k) = ''''" for k
    using assms by (simp add: drawSymbol_empty)
  have ok: "spin rnd rs =
      (Inr Jackpot, rs\<lparr>isSpinning := False, ticketCount := ticketCount rs - 1,
                       reel1 := '''', reel2 := '''', reel3 := ''''\<rparr>)"
    if "\<not> isSpinning rs \<and> 0 < ticketCount rs"
    using that by (simp add: spin_started d spinResultOf_def)
  have no: "fst (spin rnd rs) \<noteq> Inr PartialMatch \<and> fst (spin rnd rs) \<noteq> Inr NoWin"
  proof (cases "\<not> isSpinning rs \<and> 0 < ticketCount rs")
    case True
    then show ?thesis by (simp add: ok)
  next
    case False
    then have "spin rnd rs = (Inl AlreadySpinning, rs) \<or> spin rnd rs = (Inl NoTicketsAvailable, rs)"
      using spin_rejected [of rs rnd] by auto
    then show ?thesis by auto
  qed
  have "symbols = replicate 6 ''''"
    by (simp add: symbols_def numeral_eq_Suc)
  moreover have "\<forall>a \<in> set symbols. \<forall>b \<in> set symbols. \<forall>c \<in> set symbols.
        spinResultOf a b c = Jackpot"
    by (simp add: symbols_set spinResultOf_def)
  ultimately show ?thesis
    using ok no by auto
qed

text \<open>The theorem for the source that always returns \<open>1 / 2\<close>, on one ticket.\<close>

theorem spin_always_jackpot_witness:
  "(\<forall>k::nat. (0::real) \<le> 1 / 2 \<and> (1 / 2 :: real) < 1) \<and>
   fst (spin (\<lambda>k. 1 / 2)
     \<lparr>ticketCount = 1, isSpinning = False, reel1 = '''', reel2 = '''', reel3 = ''''\<rparr>)
     = Inr Jackpot \<and>
   '''' \<in> set symbols \<and> spinResultOf '''' '''' '''' = Jackpot"
proof -
  let ?rnd = "\<lambda>k::nat. 1 / 2 :: real"
  let ?rs = "\<lparr>ticketCount = 1, isSpinning = False, reel1 = '''', reel2 = '''', reel3 = ''''\<rparr>"
  have h: "\<forall>k. 0 \<le> ?rnd k \<and> ?rnd k < 1"
    by simp
  have g: "\<not> isSpinning ?rs \<and> 0 < ticketCount ?rs"
    by simp
  have m: "'''' \<in> set symbols"
    by (simp add: spin_always_jackpot [OF h, THEN conjunct1])
  obtain rs' where "spin ?rnd ?rs = (Inr Jackpot, rs')"
    using spin_always_jackpot [OF h, where rs = ?rs, THEN conjunct2, THEN conjunct1] g by blast
  then have a: "fst (spin ?rnd ?rs) = Inr Jackpot"
    by simp
  have b: "spinResultOf '''' '''' '''' = Jackpot"
    using spin_always_jackpot [OF h, THEN conjunct2, THEN conjunct2, THEN conjunct2,
        THEN conjunct2] m by blast
  show ?thesis
    using h a m b by simp
qed

end
